theory Spec2Isabelle
  imports Main
begin

section \<open>Python values and the library functions the server relies on\<close>

text \<open>
  The values that travel through the dispatcher are the values a JSON body parses to:
  \<open>None\<close>, booleans, integers, strings, lists and dictionaries with string keys.
  Floating-point numbers are left out. A string is a list of code points below 256
  (one \<open>char\<close> per code point), a dictionary is an association list in insertion
  order, read with \<open>map_of\<close>.
\<close>

datatype pyval =
    PNone
  | PBool bool
  | PInt int
  | PStr string
  | PList "pyval list"
  | PDict "(string \<times> pyval) list"

text \<open>\<open>type(v).__name__\<close>, as it appears in the interpreter's error messages.\<close>

fun type_name :: "pyval \<Rightarrow> string" where
  "type_name PNone = ''NoneType''"
| "type_name (PBool _) = ''bool''"
| "type_name (PInt _) = ''int''"
| "type_name (PStr _) = ''str''"
| "type_name (PList _) = ''list''"
| "type_name (PDict _) = ''dict''"

text \<open>\<open>bool(v)\<close>: what \<open>if v:\<close> and \<open>v or d\<close> test.\<close>

fun truthy :: "pyval \<Rightarrow> bool" where
  "truthy PNone = False"
| "truthy (PBool b) = b"
| "truthy (PInt i) = (i \<noteq> 0)"
| "truthy (PStr s) = (s \<noteq> [])"
| "truthy (PList xs) = (xs \<noteq> [])"
| "truthy (PDict kvs) = (kvs \<noteq> [])"

text \<open>Lists and dictionaries cannot be hashed, so they cannot be looked up in a dictionary.\<close>

fun hashable :: "pyval \<Rightarrow> bool" where
  "hashable (PList _) = False"
| "hashable (PDict _) = False"
| "hashable _ = True"

subsection \<open>Characters and numerals\<close>

definition backslash :: char where
  "backslash = CHR 0x5C"

definition dquote :: char where
  "dquote = CHR 0x22"

definition squote :: char where
  "squote = CHR 0x27"

definition digit :: "nat \<Rightarrow> char" where
  "digit n = ''0123456789abcdef'' ! n"

function str_nat :: "nat \<Rightarrow> string" where
  "str_nat n = (if n < 10 then [digit n] else str_nat (n div 10) @ [digit (n mod 10)])"
  by pat_completeness auto
termination
  by (relation "measure (\<lambda>n. n)") auto

definition str_int :: "int \<Rightarrow> string" where
  "str_int i = (if i < 0 then CHR ''-'' # str_nat (nat (- i)) else str_nat (nat i))"

definition hex2 :: "nat \<Rightarrow> string" where
  "hex2 n = [digit (n div 16), digit (n mod 16)]"

fun join :: "string \<Rightarrow> string list \<Rightarrow> string" where
  "join sep [] = []"
| "join sep [x] = x"
| "join sep (x # y # ys) = x @ sep @ join sep (y # ys)"

subsection \<open>\<open>str.strip\<close>, \<open>str.lower\<close>, \<open>str.startswith\<close>, \<open>in\<close> on strings\<close>

text \<open>\<open>str.isspace\<close> on one code point below 256.\<close>

definition isspace :: "char \<Rightarrow> bool" where
  "isspace c = (let n = (of_char c :: nat) in
     (9 \<le> n \<and> n \<le> 13) \<or> (28 \<le> n \<and> n \<le> 32) \<or> n = 133 \<or> n = 160)"

definition strip :: "string \<Rightarrow> string" where
  "strip s = rev (dropWhile isspace (rev (dropWhile isspace s)))"

definition lower_char :: "char \<Rightarrow> char" where
  "lower_char c = (let n = (of_char c :: nat) in
     if (65 \<le> n \<and> n \<le> 90) \<or> (192 \<le> n \<and> n \<le> 222 \<and> n \<noteq> 215)
     then char_of (n + 32) else c)"

definition lower :: "string \<Rightarrow> string" where
  "lower s = map lower_char s"

definition startswith :: "string \<Rightarrow> string \<Rightarrow> bool" where
  "startswith s p = (take (length p) s = p)"

text \<open>\<open>p in s\<close> for two strings: \<open>p\<close> occurs in \<open>s\<close> as a contiguous piece.\<close>

definition substring :: "string \<Rightarrow> string \<Rightarrow> bool" where
  "substring p s = list_ex (\<lambda>n. take (length p) (drop n s) = p) [0 ..< Suc (length s)]"

subsection \<open>\<open>repr\<close> and \<open>str\<close>\<close>

text \<open>\<open>str.isprintable\<close> on one code point below 256.\<close>

definition printable :: "char \<Rightarrow> bool" where
  "printable c = (let n = (of_char c :: nat) in
     (32 \<le> n \<and> n < 127) \<or> (161 \<le> n \<and> n \<noteq> 173))"

definition repr_char :: "char \<Rightarrow> char \<Rightarrow> string" where
  "repr_char q c =
     (if c = q \<or> c = backslash then [backslash, c]
      else if c = CHR 0x09 then [backslash, CHR ''t'']
      else if c = CHR 0x0A then [backslash, CHR ''n'']
      else if c = CHR 0x0D then [backslash, CHR ''r'']
      else if printable c then [c]
      else [backslash, CHR ''x''] @ hex2 (of_char c))"

definition repr_str :: "string \<Rightarrow> string" where
  "repr_str s =
     (let q = (if squote \<in> set s \<and> dquote \<notin> set s then dquote else squote)
      in [q] @ concat (map (repr_char q) s) @ [q])"

fun repr :: "pyval \<Rightarrow> string" where
  "repr PNone = ''None''"
| "repr (PBool b) = (if b then ''True'' else ''False'')"
| "repr (PInt i) = str_int i"
| "repr (PStr s) = repr_str s"
| "repr (PList xs) = ''['' @ join '', '' (map repr xs) @ '']''"
| "repr (PDict kvs) =
     ''{'' @ join '', '' (map (\<lambda>kv. repr_str (fst kv) @ '': '' @ repr (snd kv)) kvs) @ ''}''"

text \<open>\<open>str(v)\<close>, which is also what an f-string substitutes for \<open>{v}\<close>.\<close>

definition str :: "pyval \<Rightarrow> string" where
  "str v = (case v of PStr s \<Rightarrow> s | _ \<Rightarrow> repr v)"

subsection \<open>\<open>json.dumps\<close>\<close>

text \<open>
  With the default \<open>ensure_ascii\<close>, every code point outside the range from space to
  tilde is written as an escape.
\<close>

definition json_char :: "char \<Rightarrow> string" where
  "json_char c =
     (if c = dquote then [backslash, dquote]
      else if c = backslash then [backslash, backslash]
      else if c = CHR 0x0A then [backslash, CHR ''n'']
      else if c = CHR 0x0D then [backslash, CHR ''r'']
      else if c = CHR 0x09 then [backslash, CHR ''t'']
      else if c = CHR 0x08 then [backslash, CHR ''b'']
      else if c = CHR 0x0C then [backslash, CHR ''f'']
      else if 32 \<le> (of_char c :: nat) \<and> (of_char c :: nat) < 127 then [c]
      else [backslash, CHR ''u'', CHR ''0'', CHR ''0''] @ hex2 (of_char c))"

definition json_str :: "string \<Rightarrow> string" where
  "json_str s = [dquote] @ concat (map json_char s) @ [dquote]"

text \<open>\<open>json.dumps(v)\<close> with the default separators \<open>', '\<close> and \<open>': '\<close>.\<close>

fun json_dumps :: "pyval \<Rightarrow> string" where
  "json_dumps PNone = ''null''"
| "json_dumps (PBool b) = (if b then ''true'' else ''false'')"
| "json_dumps (PInt i) = str_int i"
| "json_dumps (PStr s) = json_str s"
| "json_dumps (PList xs) = ''['' @ join '', '' (map json_dumps xs) @ '']''"
| "json_dumps (PDict kvs) =
     ''{'' @ join '', '' (map (\<lambda>kv. json_str (fst kv) @ '': '' @ json_dumps (snd kv)) kvs) @ ''}''"

text \<open>
  \<open>json.dumps(v, indent=2)\<close>: every item on a line of its own, indented by two spaces
  for each level of nesting; an empty list or dictionary stays on one line.
\<close>

definition newline_indent :: "nat \<Rightarrow> string" where
  "newline_indent level = CHR 0x0A # replicate (2 * level) CHR '' ''"

fun json_dumps_indent :: "nat \<Rightarrow> pyval \<Rightarrow> string" where
  "json_dumps_indent level PNone = ''null''"
| "json_dumps_indent level (PBool b) = (if b then ''true'' else ''false'')"
| "json_dumps_indent level (PInt i) = str_int i"
| "json_dumps_indent level (PStr s) = json_str s"
| "json_dumps_indent level (PList xs) =
     (if xs = [] then ''[]''
      else ''['' @ newline_indent (Suc level)
        @ join ('','' @ newline_indent (Suc level)) (map (json_dumps_indent (Suc level)) xs)
        @ newline_indent level @ '']'')"
| "json_dumps_indent level (PDict kvs) =
     (if kvs = [] then ''{}''
      else ''{'' @ newline_indent (Suc level)
        @ join ('','' @ newline_indent (Suc level))
            (map (\<lambda>kv. json_str (fst kv) @ '': '' @ json_dumps_indent (Suc level) (snd kv)) kvs)
        @ newline_indent level @ ''}'')"

subsection \<open>Dictionaries\<close>

text \<open>\<open>d[k] = v\<close>: an existing key keeps its position, a new key goes to the end.\<close>

fun dict_set :: "string \<Rightarrow> 'v \<Rightarrow> (string \<times> 'v) list \<Rightarrow> (string \<times> 'v) list" where
  "dict_set k v [] = [(k, v)]"
| "dict_set k v ((k', v') # d) =
     (if k = k' then (k, v) # d else (k', v') # dict_set k v d)"

text \<open>\<open>dict(pairs)\<close>.\<close>

definition dict_of :: "(string \<times> 'v) list \<Rightarrow> (string \<times> 'v) list" where
  "dict_of pairs = foldl (\<lambda>d kv. dict_set (fst kv) (snd kv) d) [] pairs"

section \<open>Exceptions, the database and the log\<close>

text \<open>
  Every exception the code can meet is a subclass of \<open>Exception\<close>; \<open>exn_str\<close> is
  \<open>str(e)\<close>. \<open>DatabaseError\<close> stands for whatever the database client raises, with
  its message.
\<close>

datatype exn =
    AttributeError string
  | TypeError string
  | IndexError string
  | KeyError string
  | DatabaseError string

fun exn_str :: "exn \<Rightarrow> string" where
  "exn_str (AttributeError m) = m"
| "exn_str (TypeError m) = m"
| "exn_str (IndexError m) = m"
| "exn_str (KeyError k) = repr_str k"
| "exn_str (DatabaseError m) = m"

definition quoted :: "string \<Rightarrow> string" where
  "quoted s = [squote] @ s @ [squote]"

text \<open>
  What the process does to the outside is recorded as a trace: connecting to the
  database, sending a query, writing a log line. The database itself is a collaborator:
  whether a connection attempt succeeds and what a query returns or raises are given by
  two functions of the history so far. A cell of a result row is a \<open>pyval\<close>.
\<close>

datatype event =
    Connect
  | Query string
  | LogInfo string
  | LogError string

record query_result =
  column_names :: "string list"
  result_rows :: "pyval list list"

record database =
  host :: string
  port :: int
  connect_outcome :: "event list \<Rightarrow> string option"
  query_outcome :: "event list \<Rightarrow> string \<Rightarrow> string + query_result"

text \<open>\<open>client\<close> is true once \<open>ClickHouseConnection._client\<close> is no longer \<open>None\<close>.\<close>

record world =
  client :: bool
  trace :: "event list"

definition emit :: "event \<Rightarrow> world \<Rightarrow> world" where
  "emit e w = w\<lparr>trace := trace w @ [e]\<rparr>"

text \<open>Sequencing of two steps, the second skipped when the first raises.\<close>

definition bind ::
  "(world \<Rightarrow> (exn + 'a) \<times> world) \<Rightarrow> ('a \<Rightarrow> world \<Rightarrow> (exn + 'b) \<times> world)
    \<Rightarrow> world \<Rightarrow> (exn + 'b) \<times> world" where
  "bind m f w = (case m w of (Inl e, w') \<Rightarrow> (Inl e, w') | (Inr x, w') \<Rightarrow> f x w')"

definition return :: "'a \<Rightarrow> world \<Rightarrow> (exn + 'a) \<times> world" where
  "return x w = (Inr x, w)"

definition raise :: "exn \<Rightarrow> world \<Rightarrow> (exn + 'a) \<times> world" where
  "raise e w = (Inl e, w)"

subsection \<open>\<open>ClickHouseConnection\<close>\<close>

definition get_client :: "database \<Rightarrow> world \<Rightarrow> (exn + unit) \<times> world" where
  "get_client db w =
     (if \<not> client w then
        (case connect_outcome db (trace w) of
           None \<Rightarrow>
             (Inr (), emit (LogInfo (''Connected to ClickHouse at '' @ host db @ '':''
                                      @ str_int (port db)))
                        ((emit Connect w)\<lparr>client := True\<rparr>))
         | Some msg \<Rightarrow>
             (Inl (DatabaseError msg),
              emit (LogError (''Failed to connect to ClickHouse: '' @ msg)) (emit Connect w)))
      else (Inr (), w))"

text \<open>\<open>client.query(sql)\<close>.\<close>

definition query :: "database \<Rightarrow> string \<Rightarrow> world \<Rightarrow> (exn + query_result) \<times> world" where
  "query db sql w =
     (case query_outcome db (trace w) sql of
        Inl msg \<Rightarrow> (Inl (DatabaseError msg), emit (Query sql) w)
      | Inr r \<Rightarrow> (Inr r, emit (Query sql) w))"

section \<open>The tools\<close>

datatype tool = RunSelectQuery | ListDatabases | ListTables | DescribeTable

fun tool_name :: "tool \<Rightarrow> string" where
  "tool_name RunSelectQuery = ''run_select_query''"
| "tool_name ListDatabases = ''list_databases''"
| "tool_name ListTables = ''list_tables''"
| "tool_name DescribeTable = ''describe_table''"

fun tool_description :: "tool \<Rightarrow> string" where
  "tool_description RunSelectQuery =
     ''Execute SELECT SQL queries on ClickHouse database. Queries are executed in readonly mode for safety.''"
| "tool_description ListDatabases = ''List all databases available in the ClickHouse cluster''"
| "tool_description ListTables = ''List all tables in a specific database''"
| "tool_description DescribeTable = ''Get the structure/schema of a specific table''"

text \<open>
  \<open>get_input_schema\<close>; \<open>None\<close> for the class that has no such method
  (\<open>ListDatabases\<close>), which is what \<open>hasattr\<close> tests.
\<close>

definition string_property :: "string \<Rightarrow> pyval" where
  "string_property d = PDict [(''type'', PStr ''string''), (''description'', PStr d)]"

fun get_input_schema :: "tool \<Rightarrow> pyval option" where
  "get_input_schema RunSelectQuery = Some (PDict
     [(''type'', PStr ''object''),
      (''properties'', PDict [(''sql'', string_property ''The SQL SELECT query to execute'')]),
      (''required'', PList [PStr ''sql''])])"
| "get_input_schema ListDatabases = None"
| "get_input_schema ListTables = Some (PDict
     [(''type'', PStr ''object''),
      (''properties'', PDict
         [(''database'', string_property ''The name of the database to list tables from'')]),
      (''required'', PList [PStr ''database''])])"
| "get_input_schema DescribeTable = Some (PDict
     [(''type'', PStr ''object''),
      (''properties'', PDict
         [(''database'', string_property ''The name of the database''),
          (''table'', string_property ''The name of the table'')]),
      (''required'', PList [PStr ''database'', PStr ''table''])])"

text \<open>\<open>try: ... except Exception as e:\<close> around a tool's body, which logs and answers
  with a JSON text of its own.\<close>

definition catch ::
  "(world \<Rightarrow> (exn + string) \<times> world) \<Rightarrow> (exn \<Rightarrow> string \<times> string) \<Rightarrow> world \<Rightarrow> string \<times> world" where
  "catch body handler w =
     (case body w of
        (Inr out, w') \<Rightarrow> (out, w')
      | (Inl e, w') \<Rightarrow> (snd (handler e), emit (LogError (fst (handler e))) w'))"

subsection \<open>\<open>RunSelectQuery.execute\<close>\<close>

definition RunSelectQuery_body :: "database \<Rightarrow> pyval \<Rightarrow> world \<Rightarrow> (exn + string) \<times> world" where
  "RunSelectQuery_body db sql w =
     (case sql of
        PStr s \<Rightarrow>
          (let sql_lower = lower (strip s) in
           if \<not> startswith sql_lower ''select'' \<and> \<not> startswith sql_lower ''show''
              \<and> \<not> startswith sql_lower ''describe''
           then (Inr (json_dumps (PDict
                   [(''error'', PStr ''Only SELECT, SHOW, and DESCRIBE queries are allowed'')])), w)
           else bind (get_client db) (\<lambda>_. bind (query db s) (\<lambda>result.
                  let columns = column_names result;
                      rows = map (\<lambda>row. PDict (dict_of (zip columns row))) (result_rows result)
                  in return (json_dumps_indent 0 (PDict
                       [(''success'', PBool True),
                        (''columns'', PList (map PStr columns)),
                        (''rows'', PList rows),
                        (''row_count'', PInt (int (length rows))),
                        (''query'', sql)])))) w)
      | _ \<Rightarrow> (Inl (AttributeError (quoted (type_name sql) @ '' object has no attribute ''
                                    @ quoted ''strip'')), w))"

definition RunSelectQuery_execute :: "database \<Rightarrow> pyval \<Rightarrow> world \<Rightarrow> string \<times> world" where
  "RunSelectQuery_execute db sql =
     catch (RunSelectQuery_body db sql)
       (\<lambda>e. (''Query execution failed: '' @ exn_str e,
             json_dumps (PDict [(''error'', PStr (''Query execution failed: '' @ exn_str e)),
                                (''query'', sql)])))"

subsection \<open>\<open>ListDatabases.execute\<close>, \<open>ListTables.execute\<close>, \<open>DescribeTable.execute\<close>\<close>

text \<open>\<open>[row[0] for row in result.result_rows]\<close>; a row is a tuple, and an empty one has
  no first element.\<close>

definition first_column :: "pyval list list \<Rightarrow> world \<Rightarrow> (exn + pyval list) \<times> world" where
  "first_column rows =
     (if [] \<in> set rows then raise (IndexError ''tuple index out of range'')
      else return (map hd rows))"

definition ListDatabases_body :: "database \<Rightarrow> world \<Rightarrow> (exn + string) \<times> world" where
  "ListDatabases_body db =
     bind (get_client db) (\<lambda>_. bind (query db ''SHOW DATABASES'') (\<lambda>result.
       bind (first_column (result_rows result)) (\<lambda>databases.
         return (json_dumps_indent 0 (PDict
           [(''success'', PBool True),
            (''databases'', PList databases),
            (''count'', PInt (int (length databases)))])))))"

definition ListDatabases_execute :: "database \<Rightarrow> world \<Rightarrow> string \<times> world" where
  "ListDatabases_execute db =
     catch (ListDatabases_body db)
       (\<lambda>e. (''Failed to list databases: '' @ exn_str e,
             json_dumps (PDict [(''error'', PStr (''Failed to list databases: '' @ exn_str e))])))"

definition ListTables_body :: "database \<Rightarrow> pyval \<Rightarrow> world \<Rightarrow> (exn + string) \<times> world" where
  "ListTables_body db database =
     bind (get_client db) (\<lambda>_. bind (query db (''SHOW TABLES FROM '' @ str database)) (\<lambda>result.
       bind (first_column (result_rows result)) (\<lambda>tables.
         return (json_dumps_indent 0 (PDict
           [(''success'', PBool True),
            (''database'', database),
            (''tables'', PList tables),
            (''count'', PInt (int (length tables)))])))))"

definition ListTables_execute :: "database \<Rightarrow> pyval \<Rightarrow> world \<Rightarrow> string \<times> world" where
  "ListTables_execute db database =
     catch (ListTables_body db database)
       (\<lambda>e. (''Failed to list tables: '' @ exn_str e,
             json_dumps (PDict [(''error'', PStr (''Failed to list tables: '' @ exn_str e)),
                                (''database'', database)])))"

definition DescribeTable_body ::
  "database \<Rightarrow> pyval \<Rightarrow> pyval \<Rightarrow> world \<Rightarrow> (exn + string) \<times> world" where
  "DescribeTable_body db database table =
     bind (get_client db) (\<lambda>_.
       bind (query db (''DESCRIBE TABLE '' @ str database @ ''.'' @ str table)) (\<lambda>result.
         let columns = column_names result;
             schema = map (\<lambda>row. PDict (dict_of (zip columns row))) (result_rows result)
         in return (json_dumps_indent 0 (PDict
              [(''success'', PBool True),
               (''database'', database),
               (''table'', table),
               (''schema'', PList schema)]))))"

definition DescribeTable_execute ::
  "database \<Rightarrow> pyval \<Rightarrow> pyval \<Rightarrow> world \<Rightarrow> string \<times> world" where
  "DescribeTable_execute db database table =
     catch (DescribeTable_body db database table)
       (\<lambda>e. (''Failed to describe table: '' @ exn_str e,
             json_dumps (PDict [(''error'', PStr (''Failed to describe table: '' @ exn_str e)),
                                (''database'', database),
                                (''table'', table)])))"

subsection \<open>\<open>ClickHouseToolHandler\<close>\<close>

text \<open>The tools in the order in which \<open>get_available_tools\<close> writes them.\<close>

definition tools :: "tool list" where
  "tools = [RunSelectQuery, ListDatabases, ListTables, DescribeTable]"

definition get_available_tools :: "(string \<times> (string \<times> pyval) list) list" where
  "get_available_tools =
     dict_of (map (\<lambda>t. (tool_name t,
                         [(''name'', PStr (tool_name t)),
                          (''description'', PStr (tool_description t))])) tools)"

text \<open>\<open>kwargs.get(k)\<close>.\<close>

definition kwargs_get :: "(string \<times> pyval) list \<Rightarrow> string \<Rightarrow> pyval" where
  "kwargs_get kwargs k = (case map_of kwargs k of None \<Rightarrow> PNone | Some v \<Rightarrow> v)"

definition call_tool ::
  "database \<Rightarrow> string \<Rightarrow> (string \<times> pyval) list \<Rightarrow> world \<Rightarrow> string \<times> world" where
  "call_tool db name kwargs w =
     (if name = tool_name RunSelectQuery then
        RunSelectQuery_execute db (kwargs_get kwargs ''sql'') w
      else if name = tool_name ListDatabases then
        ListDatabases_execute db w
      else if name = tool_name ListTables then
        ListTables_execute db (kwargs_get kwargs ''database'') w
      else if name = tool_name DescribeTable then
        DescribeTable_execute db (kwargs_get kwargs ''database'') (kwargs_get kwargs ''table'') w
      else (json_dumps (PDict [(''error'', PStr (''Unknown tool: '' @ name))]), w))"

section \<open>\<open>SchemaManager\<close>\<close>

definition default_schema :: pyval where
  "default_schema =
     PDict [(''type'', PStr ''object''), (''properties'', PDict []), (''required'', PList [])]"

text \<open>\<open>_get_tool_instance\<close>: \<open>tool_mapping.get(tool_name)\<close>.\<close>

definition get_tool_instance :: "string \<Rightarrow> tool option" where
  "get_tool_instance name =
     map_of [(''run_select_query'', RunSelectQuery),
             (''list_databases'', ListDatabases),
             (''list_tables'', ListTables),
             (''describe_table'', DescribeTable)] name"

text \<open>The schema that \<open>get_tool_schema\<close> and \<open>get_tool_required_params\<close> both look for:
  the tool's own, when the tool is known, has the method and returns a non-empty
  dictionary.\<close>

definition custom_schema :: "string \<Rightarrow> pyval option" where
  "custom_schema name =
     (case get_tool_instance name of
        None \<Rightarrow> None
      | Some t \<Rightarrow>
          (case get_input_schema t of
             None \<Rightarrow> None
           | Some c \<Rightarrow> if truthy c then Some c else None))"

text \<open>\<open>tool_info["description"]\<close> raises \<open>KeyError\<close> when the key is missing.\<close>

definition get_tool_schema :: "string \<Rightarrow> (string \<times> pyval) list \<Rightarrow> exn + pyval" where
  "get_tool_schema name tool_info =
     (case map_of tool_info ''description'' of
        None \<Rightarrow> Inl (KeyError ''description'')
      | Some d \<Rightarrow>
          Inr (PDict [(''name'', PStr name),
                      (''description'', d),
                      (''inputSchema'',
                         (case custom_schema name of
                            Some c \<Rightarrow> c
                          | None \<Rightarrow> default_schema))]))"

text \<open>\<open>custom_schema.get("required", [])\<close>. The schemas of this program keep a list of
  strings there.\<close>

definition get_tool_required_params :: "string \<Rightarrow> string list" where
  "get_tool_required_params name =
     (case custom_schema name of
        Some (PDict kvs) \<Rightarrow>
          (case map_of kvs ''required'' of
             Some (PList ps) \<Rightarrow> concat (map (\<lambda>p. case p of PStr s \<Rightarrow> [s] | _ \<Rightarrow> []) ps)
           | _ \<Rightarrow> [])
      | _ \<Rightarrow> [])"

text \<open>
  \<open>param in arguments\<close> for a string \<open>param\<close>. The dispatcher hands over whatever the
  request carries under \<open>arguments\<close>: on a dictionary the test looks at the keys, on a
  list at the elements, on a string it is the substring test, and any other value is not
  a container.
\<close>

definition contains :: "pyval \<Rightarrow> string \<Rightarrow> exn + bool" where
  "contains arguments param =
     (case arguments of
        PDict kvs \<Rightarrow> Inr (param \<in> set (map fst kvs))
      | PList xs \<Rightarrow> Inr (PStr param \<in> set xs)
      | PStr s \<Rightarrow> Inr (substring param s)
      | _ \<Rightarrow> Inl (TypeError (''argument of type '' @ quoted (type_name arguments)
                                @ '' is not iterable'')))"

fun validate_loop :: "string list \<Rightarrow> string \<Rightarrow> pyval \<Rightarrow> exn + string option" where
  "validate_loop [] name arguments = Inr None"
| "validate_loop (param # rest) name arguments =
     (case contains arguments param of
        Inl e \<Rightarrow> Inl e
      | Inr True \<Rightarrow> validate_loop rest name arguments
      | Inr False \<Rightarrow> Inr (Some (param @ '' is required for '' @ name)))"

definition validate_tool_params :: "string \<Rightarrow> pyval \<Rightarrow> exn + string option" where
  "validate_tool_params name arguments =
     validate_loop (get_tool_required_params name) name arguments"

section \<open>\<open>BridgeHandler.process_bridge_request\<close>\<close>

record MCPRequest =
  jsonrpc :: string
  method_name :: string
  request_id :: "string option"
  params :: "(string \<times> pyval) list option"

definition result_envelope :: "string \<Rightarrow> pyval \<Rightarrow> pyval" where
  "result_envelope i r = PDict [(''jsonrpc'', PStr ''2.0''), (''id'', PStr i), (''result'', r)]"

definition error_envelope :: "pyval \<Rightarrow> int \<Rightarrow> string \<Rightarrow> pyval" where
  "error_envelope i code message =
     PDict [(''jsonrpc'', PStr ''2.0''),
            (''id'', i),
            (''error'', PDict [(''code'', PInt code), (''message'', PStr message)])]"

text \<open>The loop of \<open>tools/list\<close> over \<open>available_tools.items()\<close>.\<close>

fun tools_list :: "(string \<times> (string \<times> pyval) list) list \<Rightarrow> exn + pyval list" where
  "tools_list [] = Inr []"
| "tools_list ((name, tool_info) # rest) =
     (case get_tool_schema name tool_info of
        Inl e \<Rightarrow> Inl e
      | Inr tool_schema \<Rightarrow>
          (case tools_list rest of
             Inl e \<Rightarrow> Inl e
           | Inr schemas \<Rightarrow> Inr (tool_schema # schemas)))"

text \<open>
  \<open>self.tool_handler.call_tool(tool_name, **arguments)\<close>: the value after \<open>**\<close> has to
  be a mapping, and none of its keys may name a parameter that is already bound
  (\<open>self\<close> and \<open>name\<close>); the first such key in the dictionary's order is reported.
  The first message names the function with its module, the second without.
\<close>

definition unpack_kwargs :: "pyval \<Rightarrow> exn + (string \<times> pyval) list" where
  "unpack_kwargs arguments =
     (case arguments of
        PDict kvs \<Rightarrow>
          (case find (\<lambda>k. k = ''self'' \<or> k = ''name'') (map fst kvs) of
             Some k \<Rightarrow> Inl (TypeError (''ClickHouseToolHandler.call_tool() got multiple values for argument ''
                                       @ quoted k))
           | None \<Rightarrow> Inr kvs)
      | _ \<Rightarrow> Inl (TypeError (''clickhouse_mcp_tools.ClickHouseToolHandler.call_tool() argument after ** must be a mapping, not ''
                               @ type_name arguments)))"

text \<open>The last step of \<open>tools/call\<close>: the tool is called and its text is wrapped.\<close>

definition invoke ::
  "database \<Rightarrow> string \<Rightarrow> string \<Rightarrow> pyval \<Rightarrow> world \<Rightarrow> (exn + pyval) \<times> world" where
  "invoke db i name arguments w =
     (case unpack_kwargs arguments of
        Inl e \<Rightarrow> (Inl e, w)
      | Inr kwargs \<Rightarrow>
          (case call_tool db name kwargs w of
             (result, w') \<Rightarrow>
               (Inr (result_envelope i (PDict
                  [(''content'', PList [PDict [(''type'', PStr ''text''),
                                                (''text'', PStr result)]])])),
                w')))"

text \<open>
  The branch of \<open>tools/call\<close>, for a request whose id is \<open>i\<close>.
  \<open>request.params.get\<close> needs \<open>params\<close> to be a dictionary; \<open>tool_name not in
  all_tools\<close> hashes the name; \<open>if validation_error:\<close> holds for a non-empty message.
\<close>

definition tools_call ::
  "database \<Rightarrow> string \<Rightarrow> (string \<times> pyval) list option \<Rightarrow> world \<Rightarrow> (exn + pyval) \<times> world" where
  "tools_call db i ps w =
     (case ps of
        None \<Rightarrow> (Inl (AttributeError (quoted ''NoneType'' @ '' object has no attribute ''
                                       @ quoted ''get'')), w)
      | Some d \<Rightarrow>
          (let tool_name = (case map_of d ''name'' of None \<Rightarrow> PNone | Some v \<Rightarrow> v);
               arguments = (case map_of d ''arguments'' of None \<Rightarrow> PDict [] | Some v \<Rightarrow> v);
               all_tools = get_available_tools
           in if \<not> hashable tool_name then
                (Inl (TypeError (''unhashable type: '' @ quoted (type_name tool_name))), w)
              else if tool_name \<notin> set (map (PStr \<circ> fst) all_tools) then
                (Inr (error_envelope (PStr i) (- 32601) (''Unknown tool: '' @ str tool_name)), w)
              else
                (case validate_tool_params (str tool_name) arguments of
                   Inl e \<Rightarrow> (Inl e, w)
                 | Inr None \<Rightarrow> invoke db i (str tool_name) arguments w
                 | Inr (Some validation_error) \<Rightarrow>
                     if validation_error \<noteq> [] then
                       (Inr (error_envelope (PStr i) (- 32602) validation_error), w)
                     else invoke db i (str tool_name) arguments w)))"

text \<open>The body of the \<open>try\<close>.\<close>

definition process_body :: "database \<Rightarrow> MCPRequest \<Rightarrow> world \<Rightarrow> (exn + pyval) \<times> world" where
  "process_body db request w =
     (case request_id request of
        None \<Rightarrow>
          (Inr (PDict [(''jsonrpc'', PStr ''2.0''),
                       (''method'', PStr (method_name request)),
                       (''params'', PDict (case params request of None \<Rightarrow> [] | Some d \<Rightarrow> d))]), w)
      | Some i \<Rightarrow>
          if method_name request = ''initialize'' then
            (Inr (result_envelope i (PDict
               [(''protocolVersion'', PStr ''2024-11-05''),
                (''capabilities'', PDict [(''tools'', PDict [])]),
                (''serverInfo'', PDict [(''name'', PStr ''clickhouse-mcp-server''),
                                        (''version'', PStr ''1.0.0'')])])), w)
          else if method_name request = ''tools/list'' then
            (case tools_list get_available_tools of
               Inl e \<Rightarrow> (Inl e, w)
             | Inr schemas \<Rightarrow> (Inr (result_envelope i (PDict [(''tools'', PList schemas)])), w))
          else if method_name request = ''resources/list'' then
            (Inr (result_envelope i (PDict [(''resources'', PList [])])), w)
          else if method_name request = ''prompts/list'' then
            (Inr (result_envelope i (PDict [(''prompts'', PList [])])), w)
          else if method_name request = ''tools/call'' then
            tools_call db i (params request) w
          else
            (Inr (error_envelope (PStr i) (- 32601)
                    (''Method not found: '' @ method_name request)), w))"

text \<open>The whole method: the \<open>except Exception\<close> clause logs the fault and answers with
  code \<open>-32603\<close>.\<close>

definition process_bridge_request :: "database \<Rightarrow> MCPRequest \<Rightarrow> world \<Rightarrow> pyval \<times> world" where
  "process_bridge_request db request w =
     (case process_body db request w of
        (Inr response, w') \<Rightarrow> (response, w')
      | (Inl e, w') \<Rightarrow>
          (error_envelope (case request_id request of None \<Rightarrow> PNone | Some i \<Rightarrow> PStr i)
             (- 32603) (''Internal error: '' @ exn_str e),
           emit (LogError (''Error processing bridge request: '' @ exn_str e)) w'))"

section \<open>\<open>BridgeHandler.create_heartbeat_stream\<close> and the connection records\<close>

text \<open>
  \<open>self.connections\<close> is a dictionary from connection ids to flags. The stream touches
  it in three ways, which are the three operations of the connection lifecycle:
  \<open>self.connections[connection_id] = True\<close> opens a record,
  \<open>self.connections.get(connection_id, False)\<close> asks whether it is alive, and
  \<open>self.connections.pop(connection_id, None)\<close> closes it.
\<close>

type_synonym connections = "string \<rightharpoonup> bool"

definition open_connection :: "string \<Rightarrow> connections \<Rightarrow> connections" where
  "open_connection connection_id conns = conns(connection_id \<mapsto> True)"

definition is_alive :: "connections \<Rightarrow> string \<Rightarrow> bool" where
  "is_alive conns connection_id =
     (case conns connection_id of None \<Rightarrow> False | Some flag \<Rightarrow> flag)"

text \<open>\<open>dict.pop(key)\<close> raises \<open>KeyError\<close> on a missing key; \<open>dict.pop(key, default)\<close>
  returns the default instead.\<close>

definition pop :: "string \<Rightarrow> pyval option \<Rightarrow> connections \<Rightarrow> exn + pyval \<times> connections" where
  "pop key fallback conns =
     (case conns key of
        Some flag \<Rightarrow> Inr (PBool flag, conns(key := None))
      | None \<Rightarrow>
          (case fallback of
             Some v \<Rightarrow> Inr (v, conns)
           | None \<Rightarrow> Inl (KeyError key)))"

definition close_connection :: "string \<Rightarrow> connections \<Rightarrow> exn + pyval \<times> connections" where
  "close_connection connection_id conns = pop connection_id (Some PNone) conns"

text \<open>
  The generator is suspended at each \<open>yield\<close> and each \<open>await\<close>. What happens there is
  an input from outside: the generator is resumed (at \<open>request.is_disconnected()\<close> with the
  answer), an \<open>Exception\<close> is raised at that point, or the task is cancelled or the
  generator closed, which raises an exception that is not an \<open>Exception\<close>. A run is
  driven by a finite list of such inputs; when the list is used up the generator is
  still suspended.
\<close>

datatype input = Resume bool | Raise string | Cancel

datatype point = AtConnection | AtHeartbeat | AtSleep | AtDisconnected

datatype sse = ConnectionEvent string | HeartbeatEvent

datatype outcome = Suspended | Completed | Raised string | Cancelled

text \<open>The \<open>try\<close> body from the first \<open>yield\<close> on. The timestamp of a heartbeat is
  not modelled.\<close>

fun heartbeat_run ::
  "string \<Rightarrow> connections \<Rightarrow> point \<Rightarrow> input list \<Rightarrow> sse list \<Rightarrow> outcome \<times> sse list" where
  "heartbeat_run connection_id conns pt [] out = (Suspended, out)"
| "heartbeat_run connection_id conns pt (Raise m # rest) out = (Raised m, out)"
| "heartbeat_run connection_id conns pt (Cancel # rest) out = (Cancelled, out)"
| "heartbeat_run connection_id conns AtConnection (Resume b # rest) out =
     (if is_alive conns connection_id
      then heartbeat_run connection_id conns AtHeartbeat rest (out @ [HeartbeatEvent])
      else (Completed, out))"
| "heartbeat_run connection_id conns AtHeartbeat (Resume b # rest) out =
     heartbeat_run connection_id conns AtSleep rest out"
| "heartbeat_run connection_id conns AtSleep (Resume b # rest) out =
     heartbeat_run connection_id conns AtDisconnected rest out"
| "heartbeat_run connection_id conns AtDisconnected (Resume b # rest) out =
     (if b then (Completed, out)
      else if is_alive conns connection_id
      then heartbeat_run connection_id conns AtHeartbeat rest (out @ [HeartbeatEvent])
      else (Completed, out))"

record stream =
  events :: "sse list"
  status :: outcome
  registry :: connections
  logged :: "string list"

text \<open>
  The whole generator for the id that \<open>uuid.uuid4()\<close> returned. While it is suspended
  nothing after the \<open>try\<close> has run. Otherwise the \<open>except\<close> clause logs an
  \<open>Exception\<close>, and the \<open>finally\<close> clause runs on every way out; an exception raised
  by the \<open>finally\<close> clause itself would leave the generator in place of the outcome.
\<close>

definition create_heartbeat_stream :: "string \<Rightarrow> input list \<Rightarrow> connections \<Rightarrow> exn + stream" where
  "create_heartbeat_stream connection_id inputs conns =
     (let conns1 = open_connection connection_id conns;
          run = heartbeat_run connection_id conns1 AtConnection inputs
                  [ConnectionEvent connection_id];
          log = (case fst run of
                   Raised m \<Rightarrow> [''Bridge connection error: '' @ m]
                 | _ \<Rightarrow> [])
      in if fst run = Suspended then
           Inr \<lparr>events = snd run, status = Suspended, registry = conns1, logged = []\<rparr>
         else
           (case close_connection connection_id conns1 of
              Inl e \<Rightarrow> Inl e
            | Inr (_, conns2) \<Rightarrow>
                Inr \<lparr>events = snd run, status = fst run, registry = conns2, logged = log\<rparr>))"

text \<open>\<open>get_active_connections_count\<close>.\<close>

definition get_active_connections_count :: "connections \<Rightarrow> nat" where
  "get_active_connections_count conns = card (dom conns)"

section \<open>Notions of the specification\<close>

text \<open>
  The entry that the specification asks \<open>tools/list\<close> to give for a tool: its name, its
  description, and as \<open>inputSchema\<close> the schema the tool declares or else the canonical
  empty-object schema.
\<close>

definition listed_entry :: "tool \<Rightarrow> pyval" where
  "listed_entry t =
     PDict [(''name'', PStr (tool_name t)),
            (''description'', PStr (tool_description t)),
            (''inputSchema'',
               (case get_input_schema t of
                  Some declared \<Rightarrow> declared
                | None \<Rightarrow> PDict [(''type'', PStr ''object''), (''properties'', PDict []),
                                 (''required'', PList [])]))]"

text \<open>The names of the fields of a response, in order, and the value of one field.\<close>

definition envelope_fields :: "pyval \<Rightarrow> string list" where
  "envelope_fields response = (case response of PDict kvs \<Rightarrow> map fst kvs | _ \<Rightarrow> [])"

definition field :: "pyval \<Rightarrow> string \<Rightarrow> pyval option" where
  "field response k = (case response of PDict kvs \<Rightarrow> map_of kvs k | _ \<Rightarrow> None)"

section \<open>A database and requests to run the definitions on\<close>

definition example_database :: database where
  "example_database =
     \<lparr>host = ''localhost'', port = 8123,
      connect_outcome = (\<lambda>history. None),
      query_outcome = (\<lambda>history sql.
         if sql = ''SHOW DATABASES''
         then Inr \<lparr>column_names = [''name''], result_rows = [[PStr ''default'']]\<rparr>
         else Inl ''Unknown table'')\<rparr>"

definition fresh_world :: world where
  "fresh_world = \<lparr>client = False, trace = []\<rparr>"

definition call_notification :: MCPRequest where
  "call_notification =
     \<lparr>jsonrpc = ''2.0'', method_name = ''tools/call'', request_id = None,
      params = Some [(''name'', PStr ''list_databases''), (''arguments'', PDict [])]\<rparr>"

definition initialized_notification :: MCPRequest where
  "initialized_notification =
     \<lparr>jsonrpc = ''2.0'', method_name = ''notifications/initialized'', request_id = None,
      params = None\<rparr>"

definition initialize_request :: MCPRequest where
  "initialize_request =
     \<lparr>jsonrpc = ''2.0'', method_name = ''initialize'', request_id = Some ''1'',
      params = Some [(''protocolVersion'', PStr ''2024-11-05'')]\<rparr>"

definition list_request :: MCPRequest where
  "list_request =
     \<lparr>jsonrpc = ''2.0'', method_name = ''tools/list'', request_id = Some ''2'', params = None\<rparr>"

definition list_tables_call :: MCPRequest where
  "list_tables_call =
     \<lparr>jsonrpc = ''2.0'', method_name = ''tools/call'', request_id = Some ''3'',
      params = Some [(''name'', PStr ''list_tables''), (''arguments'', PDict [])]\<rparr>"

definition unknown_tool_call :: MCPRequest where
  "unknown_tool_call =
     \<lparr>jsonrpc = ''2.0'', method_name = ''tools/call'', request_id = Some ''4'',
      params = Some [(''name'', PStr ''drop_table''), (''arguments'', PDict [])]\<rparr>"

definition call_without_params :: MCPRequest where
  "call_without_params =
     \<lparr>jsonrpc = ''2.0'', method_name = ''tools/call'', request_id = Some ''5'', params = None\<rparr>"

definition list_databases_call :: MCPRequest where
  "list_databases_call =
     \<lparr>jsonrpc = ''2.0'', method_name = ''tools/call'', request_id = Some ''6'',
      params = Some [(''name'', PStr ''list_databases'')]\<rparr>"

definition list_name_call :: MCPRequest where
  "list_name_call =
     \<lparr>jsonrpc = ''2.0'', method_name = ''tools/call'', request_id = Some ''7'',
      params = Some [(''name'', PList [PStr ''list_tables'']), (''arguments'', PDict [])]\<rparr>"

definition null_arguments_call :: MCPRequest where
  "null_arguments_call =
     \<lparr>jsonrpc = ''2.0'', method_name = ''tools/call'', request_id = Some ''8'',
      params = Some [(''name'', PStr ''list_tables''), (''arguments'', PNone)]\<rparr>"

definition unknown_method_request :: MCPRequest where
  "unknown_method_request =
     \<lparr>jsonrpc = ''2.0'', method_name = ''foo/bar'', request_id = Some ''42'', params = None\<rparr>"

section \<open>Facts about the registry and the schemas\<close>

lemma registered_names: "map fst get_available_tools = map tool_name tools"
  by (simp add: get_available_tools_def tools_def dict_of_def)

lemma registered_member: "PStr (tool_name t) \<in> set (map (PStr \<circ> fst) get_available_tools)"
proof -
  have "tool_name t \<in> set (map tool_name tools)"
    by (cases t) (simp_all add: tools_def)
  then show ?thesis
    using registered_names by (metis (no_types, lifting) image_eqI list.set_map map_map)
qed

lemma required_params:
  "get_tool_required_params (tool_name RunSelectQuery) = [''sql'']"
  "get_tool_required_params (tool_name ListDatabases) = []"
  "get_tool_required_params (tool_name ListTables) = [''database'']"
  "get_tool_required_params (tool_name DescribeTable) = [''database'', ''table'']"
  by (simp_all add: get_tool_required_params_def custom_schema_def get_tool_instance_def)

lemma tools_list_entries: "tools_list get_available_tools = Inr (map listed_entry tools)"
  by (simp add: get_available_tools_def tools_def dict_of_def get_tool_schema_def
        custom_schema_def get_tool_instance_def listed_entry_def default_schema_def)

text \<open>The loop of \<open>validate_tool_params\<close> stops at the first required parameter that is
  not a key of the arguments.\<close>

lemma validate_loop_missing:
  "p \<in> set ps \<Longrightarrow> p \<notin> fst ` set args \<Longrightarrow>
     \<exists>q. q \<in> set ps \<and> q \<notin> fst ` set args
       \<and> validate_loop ps name (PDict args) = Inr (Some (q @ '' is required for '' @ name))"
proof (induction ps)
  case Nil
  then show ?case by simp
next
  case (Cons a ps)
  show ?case
  proof (cases "a \<in> fst ` set args")
    case True
    with Cons.prems have "p \<in> set ps" by auto
    from Cons.IH [OF this Cons.prems(2)] True show ?thesis
      by (auto simp: contains_def)
  next
    case False
    then show ?thesis by (auto simp: contains_def)
  qed
qed

lemma validation_failure:
  assumes "get_input_schema t = Some (PDict schema)"
    and "map_of schema ''required'' = Some (PList required)"
    and "PStr p \<in> set required" and "p \<notin> fst ` set args"
  shows "\<exists>q. PStr q \<in> set required \<and> q \<notin> fst ` set args
           \<and> validate_tool_params (tool_name t) (PDict args)
                = Inr (Some (q @ '' is required for '' @ tool_name t))"
proof -
  have "PStr ` set (get_tool_required_params (tool_name t)) = set required"
    using assms(1,2) by (cases t) (auto simp: required_params simp del: tool_name.simps)
  moreover from this assms(3) have "p \<in> set (get_tool_required_params (tool_name t))"
    by auto
  ultimately show ?thesis
    using validate_loop_missing [OF _ assms(4),
            of "get_tool_required_params (tool_name t)" "tool_name t"]
    unfolding validate_tool_params_def by blast
qed

lemma rejection_text:
  \<open>json_dumps (PDict [(''error'', PStr ''Only SELECT, SHOW, and DESCRIBE queries are allowed'')])
     = ''{"error": "Only SELECT, SHOW, and DESCRIBE queries are allowed"}''\<close>
  by code_simp

section \<open>The shape of what the \<open>try\<close> body returns\<close>

lemma invoke_shape:
  "invoke db i name arguments w = (Inr r, w') \<Longrightarrow> \<exists>x. r = result_envelope i x"
  by (auto simp: invoke_def split: sum.splits prod.splits)

lemma tools_call_shape:
  "tools_call db i ps w = (Inr r, w') \<Longrightarrow>
     (\<exists>x. r = result_envelope i x) \<or> (\<exists>c m. r = error_envelope (PStr i) c m)"
  by (auto simp: tools_call_def Let_def dest: invoke_shape
           split: option.splits if_splits sum.splits)

lemma process_body_shape:
  assumes "request_id request = Some i" and "process_body db request w = (Inr r, w')"
  shows "(\<exists>x. r = result_envelope i x) \<or> (\<exists>c m. r = error_envelope (PStr i) c m)"
  using assms
  by (auto simp: process_body_def dest: tools_call_shape split: if_splits sum.splits)

section \<open>The claims\<close>

subsection \<open>C1: requests without an id\<close>

text \<open>
  C1 says that for a request whose id is absent the dispatcher produces no response
  object. The first branch of \<open>process_bridge_request\<close> does return an object, which the
  route hands back to the client: for the notification \<open>notifications/initialized\<close> it
  is the request echoed with empty \<open>params\<close>, not \<open>None\<close>.
\<close>

theorem notification_response_counterexample:
  "fst (process_bridge_request example_database initialized_notification fresh_world) =
     PDict [(''jsonrpc'', PStr ''2.0''),
            (''method'', PStr ''notifications/initialized''),
            (''params'', PDict [])]
   \<and> fst (process_bridge_request example_database initialized_notification fresh_world) \<noteq> PNone"
  by (simp add: process_bridge_request_def process_body_def initialized_notification_def)

text \<open>
  C1, amended: for every request whose id is absent, the dispatcher returns the request
  echoed as an object with the three fields \<open>jsonrpc\<close>, \<open>method\<close> and \<open>params\<close> (the
  request's \<open>params\<close>, or the empty object when they are absent or empty), so an object
  with no \<open>id\<close>, \<open>result\<close> or \<open>error\<close> field, and it performs no side effect of its
  own: the connection state and the trace of database calls and log lines are as before.
  In particular a \<open>tools/call\<close> notification never invokes a tool.
\<close>

theorem notification_echo:
  assumes "request_id request = None"
  shows "process_bridge_request db request w =
           (PDict [(''jsonrpc'', PStr ''2.0''),
                   (''method'', PStr (method_name request)),
                   (''params'', PDict (case params request of None \<Rightarrow> [] | Some d \<Rightarrow> d))], w)"
  using assms by (simp add: process_bridge_request_def process_body_def)

theorem notification_echo_witness:
  "request_id call_notification = None
   \<and> process_bridge_request example_database call_notification fresh_world =
       (PDict [(''jsonrpc'', PStr ''2.0''),
               (''method'', PStr ''tools/call''),
               (''params'', PDict [(''name'', PStr ''list_databases''),
                                   (''arguments'', PDict [])])],
        \<lparr>client = False, trace = []\<rparr>)"
proof -
  have h: "request_id call_notification = None"
    by (simp add: call_notification_def)
  show ?thesis
    using h notification_echo [OF h, of example_database fresh_world]
    by (simp add: call_notification_def fresh_world_def)
qed

subsection \<open>C2: the response envelope\<close>

text \<open>
  C2: for every request that carries an id, the response has exactly one of the fields
  \<open>result\<close> and \<open>error\<close>, and its \<open>id\<close> field is the request's id.
\<close>

theorem envelope_invariant:
  assumes "request_id request = Some i"
  shows "field (fst (process_bridge_request db request w)) ''id'' = Some (PStr i)
         \<and> (filter (\<lambda>k. k = ''result'' \<or> k = ''error'')
               (envelope_fields (fst (process_bridge_request db request w))) = [''result'']
            \<or> filter (\<lambda>k. k = ''result'' \<or> k = ''error'')
               (envelope_fields (fst (process_bridge_request db request w))) = [''error''])"
proof (cases "process_body db request w")
  case (Pair outcome w')
  show ?thesis
  proof (cases outcome)
    case (Inl e)
    with Pair assms show ?thesis
      by (simp add: process_bridge_request_def error_envelope_def field_def envelope_fields_def)
  next
    case (Inr r)
    with Pair assms process_body_shape [of request i db w r w']
    show ?thesis
      by (auto simp: process_bridge_request_def error_envelope_def result_envelope_def
            field_def envelope_fields_def)
  qed
qed

theorem envelope_invariant_witness:
  "request_id list_databases_call = Some ''6''
   \<and> field (fst (process_bridge_request example_database list_databases_call fresh_world)) ''id''
       = Some (PStr ''6'')
   \<and> (filter (\<lambda>k. k = ''result'' \<or> k = ''error'')
         (envelope_fields (fst (process_bridge_request example_database list_databases_call
                                  fresh_world))) = [''result'']
      \<or> filter (\<lambda>k. k = ''result'' \<or> k = ''error'')
         (envelope_fields (fst (process_bridge_request example_database list_databases_call
                                  fresh_world))) = [''error''])"
proof -
  have h: "request_id list_databases_call = Some ''6''"
    by (simp add: list_databases_call_def)
  show ?thesis
    using h envelope_invariant [OF h, of example_database fresh_world] by simp
qed

subsection \<open>C3: unknown tools\<close>

text \<open>
  C3 says that every \<open>tools/call\<close> request with an id whose \<open>params.name\<close> is not one
  of the registered tool names is answered with code \<open>-32601\<close>. The request may carry
  any value under \<open>name\<close>. The list \<open>["list_tables"]\<close> is not a registered name, but
  \<open>tool_name not in all_tools\<close> has to hash it and raises \<open>TypeError\<close>, which the
  \<open>except\<close> clause answers with code \<open>-32603\<close>.
\<close>

theorem unknown_tool_counterexample:
  "PList [PStr ''list_tables''] \<notin> PStr ` set (map tool_name tools)
   \<and> fst (process_bridge_request example_database list_name_call fresh_world) =
       PDict [(''jsonrpc'', PStr ''2.0''), (''id'', PStr ''7''),
              (''error'', PDict [(''code'', PInt (- 32603)),
                                 (''message'', PStr (''Internal error: unhashable type: ''
                                                      @ quoted ''list''))])]"
  by (auto simp: process_bridge_request_def process_body_def tools_call_def
        list_name_call_def error_envelope_def)

text \<open>
  C3, amended: for every \<open>tools/call\<close> request with an id whose \<open>params\<close> are an object
  and whose \<open>params.name\<close> is a value that can be hashed (a string, a number, a boolean,
  or nothing at all) and is not one of the registered tool names, the response is an
  error with code \<open>-32601\<close> and the message \<open>Unknown tool: <name>\<close>, the name written
  as \<open>str\<close> writes it, and nothing else happens.
\<close>

theorem unknown_tool_error:
  assumes "request_id request = Some i" and "method_name request = ''tools/call''"
    and "params request = Some d"
    and "name = (case map_of d ''name'' of None \<Rightarrow> PNone | Some v \<Rightarrow> v)"
    and "hashable name"
    and "name \<notin> PStr ` set (map tool_name tools)"
  shows "process_bridge_request db request w =
           (PDict [(''jsonrpc'', PStr ''2.0''), (''id'', PStr i),
                   (''error'', PDict [(''code'', PInt (- 32601)),
                                      (''message'', PStr (''Unknown tool: '' @ str name))])], w)"
proof -
  have "name \<notin> set (map (PStr \<circ> fst) get_available_tools)"
    using assms(6) registered_names by (metis list.set_map map_map)
  then have "tools_call db i (Some d) w =
      (Inr (error_envelope (PStr i) (- 32601) (''Unknown tool: '' @ str name)), w)"
    using assms(4,5) by (simp add: tools_call_def Let_def)
  then show ?thesis
    using assms(1,2,3)
    by (simp add: process_bridge_request_def process_body_def error_envelope_def)
qed

theorem unknown_tool_error_witness:
  "request_id unknown_tool_call = Some ''4'' \<and> method_name unknown_tool_call = ''tools/call''
   \<and> params unknown_tool_call = Some [(''name'', PStr ''drop_table''), (''arguments'', PDict [])]
   \<and> hashable (PStr ''drop_table'')
   \<and> PStr ''drop_table'' \<notin> PStr ` set (map tool_name tools)
   \<and> process_bridge_request example_database unknown_tool_call fresh_world =
       (PDict [(''jsonrpc'', PStr ''2.0''), (''id'', PStr ''4''),
               (''error'', PDict [(''code'', PInt (- 32601)),
                                  (''message'', PStr ''Unknown tool: drop_table'')])], fresh_world)"
proof -
  have h1: "request_id unknown_tool_call = Some ''4''"
    and h2: "method_name unknown_tool_call = ''tools/call''"
    and h3: "params unknown_tool_call
               = Some [(''name'', PStr ''drop_table''), (''arguments'', PDict [])]"
    by (simp_all add: unknown_tool_call_def)
  have h4: "PStr ''drop_table''
              = (case map_of [(''name'', PStr ''drop_table''), (''arguments'', PDict [])] ''name''
                   of None \<Rightarrow> PNone | Some v \<Rightarrow> v)"
    by simp
  have h5: "hashable (PStr ''drop_table'')" by simp
  have h6: "PStr ''drop_table'' \<notin> PStr ` set (map tool_name tools)"
    by (simp add: tools_def)
  show ?thesis
    using h1 h2 h3 h5 h6
      unknown_tool_error [OF h1 h2 h3 h4 h5 h6, of example_database fresh_world]
    by (simp add: str_def)
qed

subsection \<open>C4: missing required parameters\<close>

text \<open>
  C4 says that every \<open>tools/call\<close> request with an id that names a registered tool and
  lacks a required parameter in \<open>params.arguments\<close> is answered with code \<open>-32602\<close>.
  The request may carry any value under \<open>arguments\<close>. With \<open>null\<close> there, the call
  of \<open>list_tables\<close> has no \<open>database\<close>, but \<open>param not in arguments\<close> raises
  \<open>TypeError\<close> on \<open>None\<close>, which the \<open>except\<close> clause answers with code \<open>-32603\<close>.
\<close>

theorem missing_parameter_counterexample:
  "get_tool_required_params ''list_tables'' = [''database'']
   \<and> params null_arguments_call
         = Some [(''name'', PStr ''list_tables''), (''arguments'', PNone)]
   \<and> fst (process_bridge_request example_database null_arguments_call fresh_world) =
       PDict [(''jsonrpc'', PStr ''2.0''), (''id'', PStr ''8''),
              (''error'', PDict [(''code'', PInt (- 32603)),
                                 (''message'', PStr (''Internal error: argument of type ''
                                    @ quoted ''NoneType'' @ '' is not iterable''))])]"
proof -
  have known: "PStr ''list_tables'' \<in> set (map (PStr \<circ> fst) get_available_tools)"
    using registered_member [of ListTables] by simp
  have required: "get_tool_required_params ''list_tables'' = [''database'']"
    using required_params(3) by simp
  have "validate_tool_params ''list_tables'' PNone =
          Inl (TypeError (''argument of type '' @ quoted ''NoneType'' @ '' is not iterable''))"
    by (simp add: validate_tool_params_def required contains_def)
  then have "tools_call example_database ''8''
               (Some [(''name'', PStr ''list_tables''), (''arguments'', PNone)]) fresh_world =
          (Inl (TypeError (''argument of type '' @ quoted ''NoneType'' @ '' is not iterable'')),
           fresh_world)"
    using known by (simp add: tools_call_def str_def)
  then show ?thesis
    using required
    by (simp add: process_bridge_request_def process_body_def null_arguments_call_def
          error_envelope_def)
qed

text \<open>
  C4, amended: for every \<open>tools/call\<close> request with an id that names a registered tool
  and whose \<open>params.arguments\<close> are an object, or are absent and so taken as the empty
  object, if a parameter listed under \<open>required\<close> in that tool's schema is not a key
  of the arguments, the response is an error with code \<open>-32602\<close> whose message names
  a missing parameter (\<open><parameter> is required for <tool>\<close>), and nothing else
  happens. Calling \<open>list_tables\<close> with empty arguments gives the message
  \<open>database is required for list_tables\<close>.
\<close>

theorem missing_required_parameter:
  assumes "request_id request = Some i" and "method_name request = ''tools/call''"
    and "params request = Some d"
    and "map_of d ''name'' = Some (PStr (tool_name t))"
    and "(case map_of d ''arguments'' of None \<Rightarrow> PDict [] | Some v \<Rightarrow> v) = PDict args"
    and "get_input_schema t = Some (PDict schema)"
    and "map_of schema ''required'' = Some (PList required)"
    and "PStr p \<in> set required" and "p \<notin> fst ` set args"
  shows "\<exists>q. PStr q \<in> set required \<and> q \<notin> fst ` set args
           \<and> process_bridge_request db request w =
               (PDict [(''jsonrpc'', PStr ''2.0''), (''id'', PStr i),
                       (''error'', PDict [(''code'', PInt (- 32602)),
                                          (''message'',
                                             PStr (q @ '' is required for '' @ tool_name t))])],
                w)"
proof -
  from validation_failure [OF assms(6-9)] obtain q where
    q: "PStr q \<in> set required" "q \<notin> fst ` set args"
       "validate_tool_params (tool_name t) (PDict args)
          = Inr (Some (q @ '' is required for '' @ tool_name t))"
    by blast
  have "tools_call db i (Some d) w =
      (Inr (error_envelope (PStr i) (- 32602) (q @ '' is required for '' @ tool_name t)), w)"
    using assms(4,5) q(3) registered_member [of t]
    by (simp add: tools_call_def Let_def str_def del: tool_name.simps)
  then have "process_bridge_request db request w =
      (error_envelope (PStr i) (- 32602) (q @ '' is required for '' @ tool_name t), w)"
    using assms(1,2,3) by (simp add: process_bridge_request_def process_body_def)
  with q(1,2) show ?thesis
    by (auto simp: error_envelope_def)
qed

theorem missing_required_parameter_witness:
  "request_id list_tables_call = Some ''3'' \<and> method_name list_tables_call = ''tools/call''
   \<and> params list_tables_call = Some [(''name'', PStr ''list_tables''), (''arguments'', PDict [])]
   \<and> get_tool_required_params ''list_tables'' = [''database'']
   \<and> ''database'' \<notin> fst ` set ([] :: (string \<times> pyval) list)
   \<and> process_bridge_request example_database list_tables_call fresh_world =
       (PDict [(''jsonrpc'', PStr ''2.0''), (''id'', PStr ''3''),
               (''error'', PDict [(''code'', PInt (- 32602)),
                                  (''message'', PStr ''database is required for list_tables'')])],
        fresh_world)"
proof -
  let ?d = "[(''name'', PStr ''list_tables''), (''arguments'', PDict [])]"
  let ?schema = "[(''type'', PStr ''object''),
      (''properties'', PDict
         [(''database'', string_property ''The name of the database to list tables from'')]),
      (''required'', PList [PStr ''database''])]"
  have h1: "request_id list_tables_call = Some ''3''"
    and h2: "method_name list_tables_call = ''tools/call''"
    and h3: "params list_tables_call = Some ?d"
    by (simp_all add: list_tables_call_def)
  have h4: "map_of ?d ''name'' = Some (PStr (tool_name ListTables))" by simp
  have h5: "(case map_of ?d ''arguments'' of None \<Rightarrow> PDict [] | Some v \<Rightarrow> v) = PDict []"
    by simp
  have h6: "get_input_schema ListTables = Some (PDict ?schema)" by simp
  have h7: "map_of ?schema ''required'' = Some (PList [PStr ''database''])" by simp
  have h8: "PStr ''database'' \<in> set [PStr ''database'']" by simp
  have h9: "''database'' \<notin> fst ` set ([] :: (string \<times> pyval) list)" by simp
  have r: "get_tool_required_params ''list_tables'' = [''database'']"
    using required_params(3) by simp
  show ?thesis
    using h1 h2 h3 r
      missing_required_parameter [OF h1 h2 h3 h4 h5 h6 h7 h8 h9, of example_database fresh_world]
    by simp
qed

subsection \<open>C5: listing the tools\<close>

text \<open>
  C5: for every \<open>tools/list\<close> request with an id, the result holds exactly one entry
  for each registered tool, in the order of registration, and the \<open>inputSchema\<close> of an
  entry is the schema the tool declares, or the canonical empty-object schema when it
  declares none. The registered names are the keys of \<open>get_available_tools\<close>, in
  order and without repetition.
\<close>

theorem tools_list_result:
  assumes "request_id request = Some i" and "method_name request = ''tools/list''"
  shows "process_bridge_request db request w =
           (PDict [(''jsonrpc'', PStr ''2.0''), (''id'', PStr i),
                   (''result'', PDict [(''tools'', PList (map listed_entry tools))])], w)
         \<and> map fst get_available_tools = map tool_name tools
         \<and> distinct (map tool_name tools)"
proof -
  have "distinct (map tool_name tools)" by (simp add: tools_def)
  then show ?thesis
    using assms registered_names
    by (simp add: process_bridge_request_def process_body_def tools_list_entries
          result_envelope_def)
qed

theorem tools_list_result_witness:
  "request_id list_request = Some ''2'' \<and> method_name list_request = ''tools/list''
   \<and> process_bridge_request example_database list_request fresh_world =
       (PDict [(''jsonrpc'', PStr ''2.0''), (''id'', PStr ''2''),
               (''result'', PDict [(''tools'',
                  PList [listed_entry RunSelectQuery, listed_entry ListDatabases,
                         listed_entry ListTables, listed_entry DescribeTable])])], fresh_world)
   \<and> map fst get_available_tools
       = [''run_select_query'', ''list_databases'', ''list_tables'', ''describe_table'']
   \<and> listed_entry ListDatabases =
       PDict [(''name'', PStr ''list_databases''),
              (''description'', PStr ''List all databases available in the ClickHouse cluster''),
              (''inputSchema'', PDict [(''type'', PStr ''object''), (''properties'', PDict []),
                                       (''required'', PList [])])]"
proof -
  have h1: "request_id list_request = Some ''2''"
    and h2: "method_name list_request = ''tools/list''"
    by (simp_all add: list_request_def)
  show ?thesis
    using h1 h2 tools_list_result [OF h1 h2, of example_database fresh_world]
    by (simp add: tools_def listed_entry_def)
qed

subsection \<open>C6: faults inside the dispatcher\<close>

text \<open>
  C6: the dispatcher always returns a response. Whenever the body of its \<open>try\<close> raises
  an exception \<open>e\<close> (a request without \<open>params\<close>, a name that cannot be hashed,
  arguments that are no mapping, anything a callee lets through), the \<open>except\<close> clause
  turns it into an error envelope with code \<open>-32603\<close> and the message
  \<open>Internal error: <str(e)>\<close>, with the request's id; nothing is raised to the caller.
  A fault can only arise for a request that has an id.
\<close>

theorem internal_fault_caught:
  assumes "process_body db request w = (Inl e, w')"
  shows "\<exists>i. request_id request = Some i
           \<and> process_bridge_request db request w =
               (PDict [(''jsonrpc'', PStr ''2.0''), (''id'', PStr i),
                       (''error'', PDict [(''code'', PInt (- 32603)),
                                          (''message'', PStr (''Internal error: '' @ exn_str e))])],
                emit (LogError (''Error processing bridge request: '' @ exn_str e)) w')"
proof (cases "request_id request")
  case None
  with assms show ?thesis by (simp add: process_body_def)
next
  case (Some i)
  with assms show ?thesis
    by (simp add: process_bridge_request_def error_envelope_def)
qed

theorem internal_fault_caught_witness:
  "process_body example_database call_without_params fresh_world =
     (Inl (AttributeError (quoted ''NoneType'' @ '' object has no attribute '' @ quoted ''get'')),
      fresh_world)
   \<and> request_id call_without_params = Some ''5''
   \<and> fst (process_bridge_request example_database call_without_params fresh_world) =
       PDict [(''jsonrpc'', PStr ''2.0''), (''id'', PStr ''5''),
              (''error'', PDict [(''code'', PInt (- 32603)),
                                 (''message'', PStr (''Internal error: '' @ quoted ''NoneType''
                                    @ '' object has no attribute '' @ quoted ''get''))])]"
proof -
  have h: "process_body example_database call_without_params fresh_world =
     (Inl (AttributeError (quoted ''NoneType'' @ '' object has no attribute '' @ quoted ''get'')),
      fresh_world)"
    by (simp add: process_body_def call_without_params_def tools_call_def)
  have i: "request_id call_without_params = Some ''5''"
    by (simp add: call_without_params_def)
  show ?thesis
    using h i internal_fault_caught [OF h] by auto
qed

subsection \<open>C7: unknown methods\<close>

text \<open>
  C7: for every request with an id whose method is none of \<open>initialize\<close>,
  \<open>tools/list\<close>, \<open>tools/call\<close>, \<open>resources/list\<close> and \<open>prompts/list\<close>, the
  response is an error envelope with code \<open>-32601\<close> and the message
  \<open>Method not found: <method>\<close>. The method \<open>foo/bar\<close> with id \<open>42\<close> is the instance below.
\<close>

theorem unknown_method_error:
  assumes "request_id request = Some i"
    and "method_name request \<notin> {''initialize'', ''tools/list'', ''tools/call'', ''resources/list'',
                              ''prompts/list''}"
  shows "process_bridge_request db request w =
           (PDict [(''jsonrpc'', PStr ''2.0''), (''id'', PStr i),
                   (''error'', PDict [(''code'', PInt (- 32601)),
                                      (''message'',
                                         PStr (''Method not found: '' @ method_name request))])], w)"
  using assms by (simp add: process_bridge_request_def process_body_def error_envelope_def)

theorem unknown_method_error_witness:
  "request_id unknown_method_request = Some ''42''
   \<and> method_name unknown_method_request
        \<notin> {''initialize'', ''tools/list'', ''tools/call'', ''resources/list'', ''prompts/list''}
   \<and> process_bridge_request example_database unknown_method_request fresh_world =
       (PDict [(''jsonrpc'', PStr ''2.0''), (''id'', PStr ''42''),
               (''error'', PDict [(''code'', PInt (- 32601)),
                                  (''message'', PStr ''Method not found: foo/bar'')])],
        fresh_world)"
proof -
  have h1: "request_id unknown_method_request = Some ''42''"
    and h2: "method_name unknown_method_request
        \<notin> {''initialize'', ''tools/list'', ''tools/call'', ''resources/list'', ''prompts/list''}"
    and m: "method_name unknown_method_request = ''foo/bar''"
    by (simp_all add: unknown_method_request_def)
  show ?thesis
    using h1 h2 m unknown_method_error [OF h1 h2, of example_database fresh_world]
    by simp
qed

subsection \<open>C8: \<open>initialize\<close>\<close>

text \<open>
  C8: for every \<open>initialize\<close> request with an id, the result is the fixed descriptor
  with protocol version \<open>2024-11-05\<close>, the capabilities \<open>{"tools": {}}\<close> and the server
  information; it depends neither on the request's \<open>params\<close> nor on the state, which
  the call leaves as it was, so a repeated call returns the same response.
\<close>

theorem initialize_fixed:
  assumes "request_id request = Some i" and "method_name request = ''initialize''"
  shows "process_bridge_request db request w =
           (PDict [(''jsonrpc'', PStr ''2.0''), (''id'', PStr i),
                   (''result'', PDict
                      [(''protocolVersion'', PStr ''2024-11-05''),
                       (''capabilities'', PDict [(''tools'', PDict [])]),
                       (''serverInfo'', PDict [(''name'', PStr ''clickhouse-mcp-server''),
                                               (''version'', PStr ''1.0.0'')])])], w)
         \<and> process_bridge_request db request (snd (process_bridge_request db request w))
             = process_bridge_request db request w"
  using assms by (simp add: process_bridge_request_def process_body_def result_envelope_def)

theorem initialize_fixed_witness:
  "request_id initialize_request = Some ''1'' \<and> method_name initialize_request = ''initialize''
   \<and> process_bridge_request example_database initialize_request fresh_world =
           (PDict [(''jsonrpc'', PStr ''2.0''), (''id'', PStr ''1''),
                   (''result'', PDict
                      [(''protocolVersion'', PStr ''2024-11-05''),
                       (''capabilities'', PDict [(''tools'', PDict [])]),
                       (''serverInfo'', PDict [(''name'', PStr ''clickhouse-mcp-server''),
                                               (''version'', PStr ''1.0.0'')])])], fresh_world)"
proof -
  have h1: "request_id initialize_request = Some ''1''"
    and h2: "method_name initialize_request = ''initialize''"
    by (simp_all add: initialize_request_def)
  show ?thesis
    using h1 h2 initialize_fixed [OF h1 h2, of example_database fresh_world]
    by simp
qed

subsection \<open>C9: the life of a connection record\<close>

text \<open>
  C9: right after a connection id is opened it is alive; after it is closed it is not
  alive; closing an id that is already closed succeeds and changes nothing; and whenever
  the heartbeat generator is left, be it because the loop ended, because an exception was
  raised or because the task was cancelled, the record of its id has been removed. While
  the generator is still suspended the record is alive.
\<close>

theorem connection_lifecycle:
  "is_alive (open_connection cid conns) cid
   \<and> (\<exists>v conns'. close_connection cid conns = Inr (v, conns')
         \<and> \<not> is_alive conns' cid
         \<and> close_connection cid conns' = Inr (PNone, conns'))
   \<and> (\<exists>s. create_heartbeat_stream cid inputs conns = Inr s
         \<and> (status s = Suspended \<longrightarrow> is_alive (registry s) cid)
         \<and> (status s \<noteq> Suspended \<longrightarrow> cid \<notin> dom (registry s) \<and> \<not> is_alive (registry s) cid))"
  by (auto simp: is_alive_def open_connection_def close_connection_def pop_def
        create_heartbeat_stream_def Let_def split: option.splits)

theorem connection_lifecycle_witness:
  "\<exists>s. create_heartbeat_stream ''c1'' [Resume False, Resume False, Raise ''connection reset'']
          Map.empty = Inr s
       \<and> status s = Raised ''connection reset''
       \<and> events s = [ConnectionEvent ''c1'', HeartbeatEvent]
       \<and> ''c1'' \<notin> dom (registry s) \<and> \<not> is_alive (registry s) ''c1''"
proof -
  let ?inputs = "[Resume False, Resume False, Raise ''connection reset'']"
  from connection_lifecycle [of "''c1''" Map.empty ?inputs]
  obtain s where s: "create_heartbeat_stream ''c1'' ?inputs Map.empty = Inr s"
    and exit: "status s \<noteq> Suspended \<longrightarrow> ''c1'' \<notin> dom (registry s) \<and> \<not> is_alive (registry s) ''c1''"
    by blast
  have "create_heartbeat_stream ''c1'' ?inputs Map.empty =
          Inr \<lparr>events = [ConnectionEvent ''c1'', HeartbeatEvent],
               status = Raised ''connection reset'', registry = Map.empty,
               logged = [''Bridge connection error: connection reset'']\<rparr>"
    by (simp add: create_heartbeat_stream_def Let_def close_connection_def pop_def
          is_alive_def open_connection_def)
  with s have "status s = Raised ''connection reset''"
    and "events s = [ConnectionEvent ''c1'', HeartbeatEvent]"
    by auto
  with s exit show ?thesis by auto
qed

subsection \<open>C10: the read-only guard of \<open>RunSelectQuery.execute\<close>\<close>

text \<open>
  C10: for every string \<open>sql\<close> whose stripped and lower-cased form starts with none of
  \<open>select\<close>, \<open>show\<close> and \<open>describe\<close>, \<open>RunSelectQuery.execute\<close> returns the JSON
  text \<open>{"error": "Only SELECT, SHOW, and DESCRIBE queries are allowed"}\<close> and leaves the
  state as it was: no connection is made and no query is sent.
\<close>

theorem readonly_guard:
  assumes "\<not> startswith (lower (strip sql)) ''select''"
    and "\<not> startswith (lower (strip sql)) ''show''"
    and "\<not> startswith (lower (strip sql)) ''describe''"
  shows \<open>RunSelectQuery_execute db (PStr sql) w =
           (''{"error": "Only SELECT, SHOW, and DESCRIBE queries are allowed"}'', w)\<close>
  using assms
  by (simp add: RunSelectQuery_execute_def catch_def RunSelectQuery_body_def rejection_text
           del: json_dumps.simps)

theorem readonly_guard_witness:
  \<open>\<not> startswith (lower (strip ''  DROP TABLE users'')) ''select''
   \<and> \<not> startswith (lower (strip ''  DROP TABLE users'')) ''show''
   \<and> \<not> startswith (lower (strip ''  DROP TABLE users'')) ''describe''
   \<and> RunSelectQuery_execute example_database (PStr ''  DROP TABLE users'') fresh_world =
       (''{"error": "Only SELECT, SHOW, and DESCRIBE queries are allowed"}'',
        \<lparr>client = False, trace = []\<rparr>)\<close>
proof -
  have h1: "\<not> startswith (lower (strip ''  DROP TABLE users'')) ''select''"
    and h2: "\<not> startswith (lower (strip ''  DROP TABLE users'')) ''show''"
    and h3: "\<not> startswith (lower (strip ''  DROP TABLE users'')) ''describe''"
    by code_simp+
  show ?thesis
    using h1 h2 h3 readonly_guard [OF h1 h2 h3, of example_database fresh_world]
    by (simp add: fresh_world_def)
qed

end
